theory Spec2Isabelle
  imports Complex_Main
begin

section \<open>Errors and Python helpers\<close>

text \<open>
  The exceptions that the generator code of \<^verbatim>\<open>sifigan/models/generator.py\<close>
  can raise by itself: a failed \<^verbatim>\<open>assert\<close>, a list index out of range, the
  loop variable \<^verbatim>\<open>i\<close> read after a loop that never ran, a division by a zero
  block count, \<^verbatim>\<open>None[i]\<close>, a missing attribute, and the two exceptions of
  \<^verbatim>\<open>torch.nn.utils\<close> that the weight-normalisation helpers meet.
\<close>

datatype py_error =
    AssertionError
  | IndexError
  | UnboundLocalError
  | ZeroDivisionError
  | TypeError
  | AttributeError
  | ValueError
  | RuntimeError

text \<open>\<^verbatim>\<open>xs[i]\<close> for a non-negative index.\<close>

definition py_index :: "'a list \<Rightarrow> nat \<Rightarrow> py_error + 'a" where
  "py_index xs i = (if i < length xs then Inr (xs ! i) else Inl IndexError)"

text \<open>\<^verbatim>\<open>xs[-i - 1]\<close> for a non-negative \<^verbatim>\<open>i\<close>: counted from the end.\<close>

definition py_index_from_end :: "'a list \<Rightarrow> nat \<Rightarrow> py_error + 'a" where
  "py_index_from_end xs i =
     (if i < length xs then Inr (xs ! (length xs - i - 1)) else Inl IndexError)"

section \<open>Layer descriptions\<close>

text \<open>
  The layers are built by \<^verbatim>\<open>torch.nn\<close> and by \<^verbatim>\<open>sifigan.layers\<close>; the
  generator only chooses their hyperparameters. A layer is therefore described by the
  arguments the constructor of the generator passes.
\<close>

record conv1d =
  c1_in :: int
  c1_out :: int
  c1_kernel :: int
  c1_stride :: int
  c1_padding :: int

record conv_transpose1d =
  ct_in :: int
  ct_out :: int
  ct_kernel :: int
  ct_stride :: int
  ct_padding :: int
  ct_output_padding :: int

record resblock =
  rb_kernel_size :: int
  rb_channels :: int
  rb_dilations :: "int list"
  rb_use_additional_convs :: bool



section \<open>Construction\<close>

subsection \<open>Layers shared by the three generators\<close>

text \<open>
  The three constructors build their up- and down-sampling layers with the same
  expressions. Stage \<open>i\<close> of the ladder:
  \<^verbatim>\<open>
  nn.ConvTranspose1d(
      channels // (2 ** i), channels // (2 ** (i + 1)),
      upsample_kernel_sizes[i], upsample_scales[i],
      padding=upsample_scales[i] // 2 + upsample_scales[i] % 2,
      output_padding=upsample_scales[i] % 2)
  \<close>
\<close>

definition upsample_layer :: "int \<Rightarrow> int list \<Rightarrow> int list \<Rightarrow> nat \<Rightarrow> conv_transpose1d" where
  "upsample_layer channels upsample_scales upsample_kernel_sizes i =
     \<lparr> ct_in = channels div (2 ^ i),
       ct_out = channels div (2 ^ (i + 1)),
       ct_kernel = upsample_kernel_sizes ! i,
       ct_stride = upsample_scales ! i,
       ct_padding = upsample_scales ! i div 2 + upsample_scales ! i mod 2,
       ct_output_padding = upsample_scales ! i mod 2 \<rparr>"

text \<open>
  \<^verbatim>\<open>
  nn.Conv1d(
      channels // (2 ** (i + 1)), channels // (2 ** i),
      upsample_kernel_sizes[i], upsample_scales[i],
      padding=upsample_scales[i] - (upsample_kernel_sizes[i] % 2 == 0))
  \<close>
  The Boolean counts as 1 when the kernel size is even.
\<close>

definition downsample_layer :: "int \<Rightarrow> int list \<Rightarrow> int list \<Rightarrow> nat \<Rightarrow> conv1d" where
  "downsample_layer channels upsample_scales upsample_kernel_sizes i =
     \<lparr> c1_in = channels div (2 ^ (i + 1)),
       c1_out = channels div (2 ^ i),
       c1_kernel = upsample_kernel_sizes ! i,
       c1_stride = upsample_scales ! i,
       c1_padding = upsample_scales ! i
                    - (if upsample_kernel_sizes ! i mod 2 = 0 then 1 else 0) \<rparr>"

text \<open>\<^verbatim>\<open>for i in reversed(range(len(upsample_kernel_sizes)))\<close>\<close>

definition downsample_layers :: "int \<Rightarrow> int list \<Rightarrow> int list \<Rightarrow> conv1d list" where
  "downsample_layers channels upsample_scales upsample_kernel_sizes =
     map (downsample_layer channels upsample_scales upsample_kernel_sizes)
       (rev [0..<length upsample_kernel_sizes])"

text \<open>The initial, final and embedding convolutions: stride 1, padding \<^verbatim>\<open>(kernel_size - 1) // 2\<close>.\<close>

definition same_conv :: "int \<Rightarrow> int \<Rightarrow> int \<Rightarrow> conv1d" where
  "same_conv cin cout kernel_size =
     \<lparr> c1_in = cin, c1_out = cout, c1_kernel = kernel_size, c1_stride = 1,
       c1_padding = (kernel_size - 1) div 2 \<rparr>"

subsection \<open>HiFiGANGenerator\<close>

record base_config =
  in_channels :: int
  out_channels :: int
  channels :: int
  kernel_size :: int
  upsample_scales :: "int list"
  upsample_kernel_sizes :: "int list"
  use_weight_norm :: bool

record hifigan_config = base_config +
  qp_resblock_kernel_size :: int
  qp_resblock_dilations :: "int list list"
  qp_use_additional_convs :: bool
  resblock_kernel_sizes :: "int list"
  resblock_dilations :: "int list list"
  use_additional_convs :: bool
  use_sine_embs :: bool
  use_qp_resblocks :: bool

record hifigan =
  hg_num_upsamples :: nat
  hg_num_blocks :: nat
  hg_input_conv :: conv1d
  hg_upsamples :: "conv_transpose1d list"
  hg_use_qp_resblocks :: bool
  hg_qp_blocks :: "resblock list"
  hg_blocks :: "resblock list"
  hg_output_conv :: conv1d
  hg_use_sine_embs :: bool
  hg_emb :: "conv1d option"
  hg_downsamples :: "conv1d list"

text \<open>The residual blocks of stage \<open>i\<close>: \<^verbatim>\<open>for j in range(len(resblock_kernel_sizes))\<close>.\<close>

definition hifigan_stage_blocks :: "hifigan_config \<Rightarrow> nat \<Rightarrow> resblock list" where
  "hifigan_stage_blocks cfg i =
     map (\<lambda>j. \<lparr> rb_kernel_size = resblock_kernel_sizes cfg ! j,
                 rb_channels = channels cfg div (2 ^ (i + 1)),
                 rb_dilations = resblock_dilations cfg ! j,
                 rb_use_additional_convs = use_additional_convs cfg \<rparr>)
       [0..<length (resblock_kernel_sizes cfg)]"

definition hifigan_qp_block :: "hifigan_config \<Rightarrow> nat \<Rightarrow> resblock" where
  "hifigan_qp_block cfg i =
     \<lparr> rb_kernel_size = qp_resblock_kernel_size cfg,
       rb_channels = channels cfg div (2 ^ (i + 1)),
       rb_dilations = qp_resblock_dilations cfg ! i,
       rb_use_additional_convs = qp_use_additional_convs cfg \<rparr>"

text \<open>
  The stage loop \<^verbatim>\<open>for i in range(len(upsample_kernel_sizes))\<close>: the assertion on the
  kernel size comes first in each iteration, then the layers of the stage are appended.
  \<^verbatim>\<open>qp_resblock_dilations[i]\<close> is read only when \<^verbatim>\<open>use_qp_resblocks\<close> is set.
\<close>

fun hifigan_stages ::
  "hifigan_config \<Rightarrow> nat list \<Rightarrow>
     py_error + (conv_transpose1d list \<times> resblock list \<times> resblock list)" where
  "hifigan_stages cfg [] = Inr ([], [], [])"
| "hifigan_stages cfg (i # rest) =
     (if upsample_kernel_sizes cfg ! i \<noteq> 2 * upsample_scales cfg ! i then Inl AssertionError
      else if use_qp_resblocks cfg \<and> length (qp_resblock_dilations cfg) \<le> i then Inl IndexError
      else (case hifigan_stages cfg rest of
              Inl e \<Rightarrow> Inl e
            | Inr (ups, qps, blks) \<Rightarrow>
                Inr (upsample_layer (channels cfg) (upsample_scales cfg)
                       (upsample_kernel_sizes cfg) i # ups,
                     (if use_qp_resblocks cfg then [hifigan_qp_block cfg i] else []) @ qps,
                     hifigan_stage_blocks cfg i @ blks)))"

text \<open>
  \<^verbatim>\<open>HiFiGANGenerator.__init__\<close>. After the loop the output convolution reads
  \<^verbatim>\<open>channels // (2 ** (i + 1))\<close> with the last value of \<^verbatim>\<open>i\<close>, which is unbound
  when there is no stage.
\<close>

definition HiFiGANGenerator_init :: "hifigan_config \<Rightarrow> py_error + hifigan" where
  "HiFiGANGenerator_init cfg =
     (if kernel_size cfg mod 2 \<noteq> 1 then Inl AssertionError
      else if length (upsample_scales cfg) \<noteq> length (upsample_kernel_sizes cfg)
        then Inl AssertionError
      else if length (resblock_dilations cfg) \<noteq> length (resblock_kernel_sizes cfg)
        then Inl AssertionError
      else (case hifigan_stages cfg [0..<length (upsample_kernel_sizes cfg)] of
              Inl e \<Rightarrow> Inl e
            | Inr (ups, qps, blks) \<Rightarrow>
                if upsample_kernel_sizes cfg = [] then Inl UnboundLocalError
                else Inr
                  \<lparr> hg_num_upsamples = length (upsample_kernel_sizes cfg),
                    hg_num_blocks = length (resblock_kernel_sizes cfg),
                    hg_input_conv =
                      same_conv (in_channels cfg) (channels cfg) (kernel_size cfg),
                    hg_upsamples = ups,
                    hg_use_qp_resblocks = use_qp_resblocks cfg,
                    hg_qp_blocks = qps,
                    hg_blocks = blks,
                    hg_output_conv =
                      same_conv
                        (channels cfg div (2 ^ length (upsample_kernel_sizes cfg)))
                        (out_channels cfg) (kernel_size cfg),
                    hg_use_sine_embs = use_sine_embs cfg,
                    hg_emb =
                      (if use_sine_embs cfg
                       then Some (same_conv 1
                              (channels cfg div (2 ^ length (upsample_kernel_sizes cfg)))
                              (kernel_size cfg))
                       else None),
                    hg_downsamples =
                      (if use_sine_embs cfg
                       then downsample_layers (channels cfg) (upsample_scales cfg)
                              (upsample_kernel_sizes cfg)
                       else []) \<rparr>))"

text \<open>The default arguments of the constructor.\<close>

definition hifigan_defaults :: "int \<Rightarrow> hifigan_config" where
  "hifigan_defaults cin =
     \<lparr> in_channels = cin, out_channels = 1, channels = 512, kernel_size = 7,
       upsample_scales = [5, 4, 3, 2], upsample_kernel_sizes = [10, 8, 6, 4],
       use_weight_norm = True,
       qp_resblock_kernel_size = 3,
       qp_resblock_dilations = [ [1], [1, 2], [1, 2, 4], [1, 2, 4, 8] ],
       qp_use_additional_convs = True,
       resblock_kernel_sizes = [3, 7, 11],
       resblock_dilations = [ [1, 3, 5], [1, 3, 5], [1, 3, 5] ],
       use_additional_convs = False,
       use_sine_embs = False,
       use_qp_resblocks = False \<rparr>"

subsection \<open>SiFiGANGenerator and SiFiGANDirectGenerator\<close>

text \<open>
  The dictionaries \<^verbatim>\<open>source_network_params\<close> and \<^verbatim>\<open>filter_network_params\<close>,
  with the keys the constructors read.
\<close>

record source_network_params =
  sn_resblock_kernel_size :: int
  sn_resblock_dilations :: "int list list"
  sn_use_additional_convs :: bool

record filter_network_params =
  fn_resblock_kernel_sizes :: "int list"
  fn_resblock_dilations :: "int list list"
  fn_use_additional_convs :: bool

record sifigan_direct_config = base_config +
  source_network_params :: source_network_params
  filter_network_params :: filter_network_params
  share_upsamples :: bool

record sifigan_config = sifigan_direct_config +
  share_downsamples :: bool
  gin_channels :: int

record sifigan_direct =
  sg_num_upsamples :: nat
  sg_num_fn_blocks :: nat
  sg_share_upsamples :: bool
  sg_input_conv :: conv1d
  sg_sn_upsamples :: "conv_transpose1d list"
  sg_fn_upsamples :: "conv_transpose1d list"
  sg_sn_blocks :: "resblock list"
  sg_fn_blocks :: "resblock list"
  sg_sn_output_conv :: conv1d
  sg_fn_output_conv :: conv1d
  sg_sn_emb :: conv1d
  sg_sn_downsamples :: "conv1d list"

record sifigan = sifigan_direct +
  sg_share_downsamples :: bool
  sg_fn_downsamples :: "conv1d list"
  sg_emb_g :: "(int \<times> int) option"
  sg_cond :: "conv1d option"

definition sifigan_sn_block :: "'a sifigan_direct_config_scheme \<Rightarrow> nat \<Rightarrow> resblock" where
  "sifigan_sn_block cfg i =
     \<lparr> rb_kernel_size = sn_resblock_kernel_size (source_network_params cfg),
       rb_channels = channels cfg div (2 ^ (i + 1)),
       rb_dilations = sn_resblock_dilations (source_network_params cfg) ! i,
       rb_use_additional_convs = sn_use_additional_convs (source_network_params cfg) \<rparr>"

definition sifigan_fn_stage_blocks ::
  "'a sifigan_direct_config_scheme \<Rightarrow> nat \<Rightarrow> resblock list" where
  "sifigan_fn_stage_blocks cfg i =
     map (\<lambda>j. \<lparr> rb_kernel_size = fn_resblock_kernel_sizes (filter_network_params cfg) ! j,
                 rb_channels = channels cfg div (2 ^ (i + 1)),
                 rb_dilations = fn_resblock_dilations (filter_network_params cfg) ! j,
                 rb_use_additional_convs =
                   fn_use_additional_convs (filter_network_params cfg) \<rparr>)
       [0..<length (fn_resblock_kernel_sizes (filter_network_params cfg))]"

text \<open>
  The stage loop, which is the same text in both constructors. Unlike
  \<^verbatim>\<open>HiFiGANGenerator\<close>, nothing asserts that the filter network has as many
  dilation tuples as kernel sizes, so \<^verbatim>\<open>resblock_dilations[j]\<close> can run out of
  range, as \<^verbatim>\<open>source_network_params["resblock_dilations"][i]\<close> can.
\<close>

fun sifigan_stages ::
  "'a sifigan_direct_config_scheme \<Rightarrow> nat list \<Rightarrow>
     py_error + (conv_transpose1d list \<times> conv_transpose1d list
                 \<times> resblock list \<times> resblock list)" where
  "sifigan_stages cfg [] = Inr ([], [], [], [])"
| "sifigan_stages cfg (i # rest) =
     (if upsample_kernel_sizes cfg ! i \<noteq> 2 * upsample_scales cfg ! i then Inl AssertionError
      else if length (sn_resblock_dilations (source_network_params cfg)) \<le> i
        then Inl IndexError
      else if length (fn_resblock_dilations (filter_network_params cfg))
                < length (fn_resblock_kernel_sizes (filter_network_params cfg))
        then Inl IndexError
      else (case sifigan_stages cfg rest of
              Inl e \<Rightarrow> Inl e
            | Inr (sn_ups, fn_ups, sn_blks, fn_blks) \<Rightarrow>
                Inr (upsample_layer (channels cfg) (upsample_scales cfg)
                       (upsample_kernel_sizes cfg) i # sn_ups,
                     (if share_upsamples cfg then []
                      else [upsample_layer (channels cfg) (upsample_scales cfg)
                              (upsample_kernel_sizes cfg) i]) @ fn_ups,
                     sifigan_sn_block cfg i # sn_blks,
                     sifigan_fn_stage_blocks cfg i @ fn_blks)))"

text \<open>\<^verbatim>\<open>SiFiGANDirectGenerator.__init__\<close>\<close>

definition SiFiGANDirectGenerator_init ::
  "sifigan_direct_config \<Rightarrow> py_error + sifigan_direct" where
  "SiFiGANDirectGenerator_init cfg =
     (if kernel_size cfg mod 2 \<noteq> 1 then Inl AssertionError
      else if length (upsample_scales cfg) \<noteq> length (upsample_kernel_sizes cfg)
        then Inl AssertionError
      else (case sifigan_stages cfg [0..<length (upsample_kernel_sizes cfg)] of
              Inl e \<Rightarrow> Inl e
            | Inr (sn_ups, fn_ups, sn_blks, fn_blks) \<Rightarrow>
                if upsample_kernel_sizes cfg = [] then Inl UnboundLocalError
                else Inr
                  \<lparr> sg_num_upsamples = length (upsample_kernel_sizes cfg),
                    sg_num_fn_blocks =
                      length (fn_resblock_kernel_sizes (filter_network_params cfg)),
                    sg_share_upsamples = share_upsamples cfg,
                    sg_input_conv =
                      same_conv (in_channels cfg) (channels cfg) (kernel_size cfg),
                    sg_sn_upsamples = sn_ups,
                    sg_fn_upsamples = fn_ups,
                    sg_sn_blocks = sn_blks,
                    sg_fn_blocks = fn_blks,
                    sg_sn_output_conv =
                      same_conv
                        (channels cfg div (2 ^ length (upsample_kernel_sizes cfg)))
                        (out_channels cfg) (kernel_size cfg),
                    sg_fn_output_conv =
                      same_conv
                        (channels cfg div (2 ^ length (upsample_kernel_sizes cfg)))
                        (out_channels cfg) (kernel_size cfg),
                    sg_sn_emb =
                      same_conv 1
                        (channels cfg div (2 ^ length (upsample_kernel_sizes cfg)))
                        (kernel_size cfg),
                    sg_sn_downsamples =
                      downsample_layers (channels cfg) (upsample_scales cfg)
                        (upsample_kernel_sizes cfg) \<rparr>))"

text \<open>
  \<^verbatim>\<open>SiFiGANGenerator.__init__\<close>: the speaker embedding \<^verbatim>\<open>nn.Embedding(12, gin_channels)\<close>
  and its projection exist only when \<^verbatim>\<open>gin_channels != 0\<close>; the filter network has
  its own down-sampling layers unless \<^verbatim>\<open>share_downsamples\<close> is set.
\<close>

definition SiFiGANGenerator_init :: "sifigan_config \<Rightarrow> py_error + sifigan" where
  "SiFiGANGenerator_init cfg =
     (if kernel_size cfg mod 2 \<noteq> 1 then Inl AssertionError
      else if length (upsample_scales cfg) \<noteq> length (upsample_kernel_sizes cfg)
        then Inl AssertionError
      else (case sifigan_stages cfg [0..<length (upsample_kernel_sizes cfg)] of
              Inl e \<Rightarrow> Inl e
            | Inr (sn_ups, fn_ups, sn_blks, fn_blks) \<Rightarrow>
                if upsample_kernel_sizes cfg = [] then Inl UnboundLocalError
                else Inr
                  \<lparr> sg_num_upsamples = length (upsample_kernel_sizes cfg),
                    sg_num_fn_blocks =
                      length (fn_resblock_kernel_sizes (filter_network_params cfg)),
                    sg_share_upsamples = share_upsamples cfg,
                    sg_input_conv =
                      same_conv (in_channels cfg) (channels cfg) (kernel_size cfg),
                    sg_sn_upsamples = sn_ups,
                    sg_fn_upsamples = fn_ups,
                    sg_sn_blocks = sn_blks,
                    sg_fn_blocks = fn_blks,
                    sg_sn_output_conv =
                      same_conv
                        (channels cfg div (2 ^ length (upsample_kernel_sizes cfg)))
                        (out_channels cfg) (kernel_size cfg),
                    sg_fn_output_conv =
                      same_conv
                        (channels cfg div (2 ^ length (upsample_kernel_sizes cfg)))
                        (out_channels cfg) (kernel_size cfg),
                    sg_sn_emb =
                      same_conv 1
                        (channels cfg div (2 ^ length (upsample_kernel_sizes cfg)))
                        (kernel_size cfg),
                    sg_sn_downsamples =
                      downsample_layers (channels cfg) (upsample_scales cfg)
                        (upsample_kernel_sizes cfg),
                    sg_share_downsamples = share_downsamples cfg,
                    sg_fn_downsamples =
                      (if share_downsamples cfg then []
                       else downsample_layers (channels cfg) (upsample_scales cfg)
                              (upsample_kernel_sizes cfg)),
                    sg_emb_g =
                      (if gin_channels cfg \<noteq> 0 then Some (12, gin_channels cfg) else None),
                    sg_cond =
                      (if gin_channels cfg \<noteq> 0
                       then Some \<lparr> c1_in = gin_channels cfg, c1_out = channels cfg,
                                   c1_kernel = 1, c1_stride = 1, c1_padding = 0 \<rparr>
                       else None) \<rparr>))"

definition sifigan_direct_defaults :: "int \<Rightarrow> sifigan_direct_config" where
  "sifigan_direct_defaults cin =
     \<lparr> in_channels = cin, out_channels = 1, channels = 512, kernel_size = 7,
       upsample_scales = [5, 4, 3, 2], upsample_kernel_sizes = [10, 8, 6, 4],
       use_weight_norm = True,
       source_network_params =
         \<lparr> sn_resblock_kernel_size = 3,
           sn_resblock_dilations = [ [1], [1, 2], [1, 2, 4], [1, 2, 4, 8] ],
           sn_use_additional_convs = True \<rparr>,
       filter_network_params =
         \<lparr> fn_resblock_kernel_sizes = [3, 5, 7],
           fn_resblock_dilations = [ [1, 3, 5], [1, 3, 5], [1, 3, 5] ],
           fn_use_additional_convs = False \<rparr>,
       share_upsamples = False \<rparr>"

definition sifigan_defaults :: "int \<Rightarrow> sifigan_config" where
  "sifigan_defaults cin =
     sifigan_direct_config.extend (sifigan_direct_defaults cin)
       (sifigan_config.fields False 256)"

section \<open>Forward pass: time lengths\<close>

text \<open>Sequencing of steps that may raise: the first error ends the computation.\<close>

fun err_bind :: "py_error + 'a \<Rightarrow> ('a \<Rightarrow> py_error + 'b) \<Rightarrow> py_error + 'b" where
  "err_bind (Inl e) f = Inl e"
| "err_bind (Inr x) f = f x"











section \<open>Forward pass: values\<close>

text \<open>
  Tensors of one shape form a real vector space: \<^verbatim>\<open>a + b\<close> is the sum, the Python
  float \<^verbatim>\<open>0.0\<close> broadcasts to the zero tensor and \<^verbatim>\<open>cs / n\<close> scales by
  \<open>1 / n\<close>. A layer with its current weights is a function on tensors that may
  raise. The arithmetic is that of the reals; shapes are the subject of the previous
  section.
\<close>

type_synonym 't layer = "'t \<Rightarrow> py_error + 't"

text \<open>
  \<^verbatim>\<open>
  embs = [x]
  for i in range(self.num_upsamples - 1):
      x = downsamples[i](x)
      embs += [x]
  \<close>
\<close>

fun downsample_cascade :: "'t layer list \<Rightarrow> 't \<Rightarrow> nat \<Rightarrow> py_error + 't list" where
  "downsample_cascade downsamples x 0 = Inr [x]"
| "downsample_cascade downsamples x (Suc m) =
     err_bind (downsample_cascade downsamples x m) (\<lambda>embs.
     err_bind (py_index downsamples m) (\<lambda>down.
     err_bind (down (last embs)) (\<lambda>x'.
       Inr (embs @ [x']))))"

text \<open>
  The residual blocks of stage \<open>i\<close>, in all three generators:
  \<^verbatim>\<open>
  cs = 0.0  # initialize
  for j in range(num_blocks):
      cs += blocks[i * num_blocks + j](c)
  c = cs / num_blocks
  \<close>
  \<open>blocks_sum\<close> is \<^verbatim>\<open>cs\<close> after \<open>j\<close> iterations.
\<close>

fun blocks_sum ::
  "('t::real_vector) layer list \<Rightarrow> nat \<Rightarrow> 't \<Rightarrow> nat \<Rightarrow> py_error + 't" where
  "blocks_sum blocks base c 0 = Inr 0"
| "blocks_sum blocks base c (Suc j) =
     err_bind (blocks_sum blocks base c j) (\<lambda>cs.
     err_bind (py_index blocks (base + j)) (\<lambda>block.
     err_bind (block c) (\<lambda>y.
       Inr (cs + y))))"

definition blocks_mean ::
  "('t::real_vector) layer list \<Rightarrow> nat \<Rightarrow> nat \<Rightarrow> 't \<Rightarrow> py_error + 't" where
  "blocks_mean blocks num_blocks i c =
     err_bind (blocks_sum blocks (i * num_blocks) c num_blocks) (\<lambda>cs.
       if num_blocks = 0 then Inl ZeroDivisionError
       else Inr (cs /\<^sub>R real num_blocks))"

subsection \<open>HiFiGANGenerator.forward\<close>

record 't hifigan_net =
  hn_num_upsamples :: nat
  hn_num_blocks :: nat
  hn_use_sine_embs :: bool
  hn_use_qp_resblocks :: bool
  hn_input_conv :: "'t layer"
  hn_upsamples :: "'t layer list"
  hn_qp_blocks :: "('t \<Rightarrow> 't \<Rightarrow> py_error + 't) list"
  hn_blocks :: "'t layer list"
  hn_output_conv :: "'t layer"
  hn_emb :: "'t layer option"
  hn_downsamples :: "'t layer list"

text \<open>
  \<^verbatim>\<open>
  c = self.upsamples[i](c)
  if self.use_sine_embs:
      c = c + embs[-i - 1]
  if self.use_qp_resblocks:
      c = self.qp_blocks[i](c, d[i])
  \<close>
  is the input of the residual blocks of the stage; the stage returns their mean.
\<close>

definition hifigan_stage_input ::
  "('t::real_vector) hifigan_net \<Rightarrow> 't list \<Rightarrow> 't list option \<Rightarrow> nat \<Rightarrow> 't
     \<Rightarrow> py_error + 't" where
  "hifigan_stage_input g embs d i c =
     err_bind (py_index (hn_upsamples g) i) (\<lambda>up.
     err_bind (up c) (\<lambda>c1.
     err_bind
       (if hn_use_sine_embs g
        then err_bind (py_index_from_end embs i) (\<lambda>e. Inr (c1 + e))
        else Inr c1) (\<lambda>c2.
     if hn_use_qp_resblocks g
     then err_bind (py_index (hn_qp_blocks g) i) (\<lambda>qp.
          (case d of
             None \<Rightarrow> Inl TypeError
           | Some ds \<Rightarrow> err_bind (py_index ds i) (qp c2)))
     else Inr c2)))"

definition hifigan_stage ::
  "('t::real_vector) hifigan_net \<Rightarrow> 't list \<Rightarrow> 't list option \<Rightarrow> nat \<Rightarrow> 't
     \<Rightarrow> py_error + 't" where
  "hifigan_stage g embs d i c =
     err_bind (hifigan_stage_input g embs d i c)
       (blocks_mean (hn_blocks g) (hn_num_blocks g) i)"

fun hifigan_ladder ::
  "('t::real_vector) hifigan_net \<Rightarrow> 't list \<Rightarrow> 't list option \<Rightarrow> nat \<Rightarrow> 't
     \<Rightarrow> py_error + 't" where
  "hifigan_ladder g embs d 0 c = Inr c"
| "hifigan_ladder g embs d (Suc m) c =
     err_bind (hifigan_ladder g embs d m c) (hifigan_stage g embs d m)"

text \<open>
  \<^verbatim>\<open>HiFiGANGenerator.forward(x, c, d=None)\<close>; the result is the only component of
  the returned tuple. Without sine embeddings \<^verbatim>\<open>embs\<close> is never assigned and never
  read.
\<close>

definition HiFiGANGenerator_forward ::
  "('t::real_vector) hifigan_net \<Rightarrow> 't \<Rightarrow> 't \<Rightarrow> 't list option \<Rightarrow> py_error + 't" where
  "HiFiGANGenerator_forward g x c d =
     err_bind (hn_input_conv g c) (\<lambda>c0.
     err_bind
       (if hn_use_sine_embs g
        then (case hn_emb g of
                None \<Rightarrow> Inl AttributeError
              | Some emb \<Rightarrow>
                  err_bind (emb x) (\<lambda>x0.
                    downsample_cascade (hn_downsamples g) x0 (hn_num_upsamples g - 1)))
        else Inr []) (\<lambda>embs.
     err_bind (hifigan_ladder g embs d (hn_num_upsamples g) c0) (\<lambda>c'.
     hn_output_conv g c')))"

subsection \<open>SiFiGANGenerator.forward and SiFiGANDirectGenerator.forward\<close>

record 't sifigan_direct_net =
  sgn_num_upsamples :: nat
  sgn_num_fn_blocks :: nat
  sgn_share_upsamples :: bool
  sgn_input_conv :: "'t layer"
  sgn_sn_upsamples :: "'t layer list"
  sgn_fn_upsamples :: "'t layer list"
  sgn_sn_blocks :: "('t \<Rightarrow> 't \<Rightarrow> py_error + 't) list"
  sgn_fn_blocks :: "'t layer list"
  sgn_sn_output_conv :: "'t layer"
  sgn_fn_output_conv :: "'t layer"
  sgn_sn_emb :: "'t layer"
  sgn_sn_downsamples :: "'t layer list"

record ('t, 's) sifigan_net = "'t sifigan_direct_net" +
  sgn_share_downsamples :: bool
  sgn_fn_downsamples :: "'t layer list"
  sgn_emb_g :: "('s \<Rightarrow> py_error + 't) option"
  sgn_cond :: "'t layer option"

text \<open>
  The source network's stage \<open>i\<close> applied to \<open>e\<close>, before the embedding is added:
  \<^verbatim>\<open>self.sn["upsamples"][i](e)\<close>.
\<close>

definition sn_upsample ::
  "('t, 'z) sifigan_direct_net_scheme \<Rightarrow> nat \<Rightarrow> 't \<Rightarrow> py_error + 't" where
  "sn_upsample g i e = err_bind (py_index (sgn_sn_upsamples g) i) (\<lambda>up. up e)"

text \<open>
  The filter network's stage \<open>i\<close> applied to \<open>c\<close>, before the embedding is added:
  \<^verbatim>\<open>
  if self.share_upsamples:
      c = self.sn["upsamples"][i](c) + ...
  else:
      c = self.fn["upsamples"][i](c) + ...
  \<close>
\<close>

definition fn_upsample ::
  "('t, 'z) sifigan_direct_net_scheme \<Rightarrow> nat \<Rightarrow> 't \<Rightarrow> py_error + 't" where
  "fn_upsample g i c =
     (if sgn_share_upsamples g
      then err_bind (py_index (sgn_sn_upsamples g) i) (\<lambda>up. up c)
      else err_bind (py_index (sgn_fn_upsamples g) i) (\<lambda>up. up c))"

text \<open>
  The source network: \<^verbatim>\<open>e = self.sn["upsamples"][i](e) + embs[-i - 1]\<close>, then
  \<^verbatim>\<open>e = self.sn["blocks"][i](e, d[i])\<close>. The list collects \<^verbatim>\<open>e\<close> after each
  stage, which is \<^verbatim>\<open>embs2\<close> of \<^verbatim>\<open>SiFiGANDirectGenerator\<close>; the current \<^verbatim>\<open>e\<close>
  is the second component.
\<close>

definition source_stage ::
  "(('t::real_vector), 'z) sifigan_direct_net_scheme \<Rightarrow> 't list \<Rightarrow> 't list \<Rightarrow> nat \<Rightarrow> 't
     \<Rightarrow> py_error + 't" where
  "source_stage g embs d i e =
     err_bind (sn_upsample g i e) (\<lambda>e1.
     err_bind (py_index_from_end embs i) (\<lambda>emb.
     err_bind (py_index (sgn_sn_blocks g) i) (\<lambda>block.
     err_bind (py_index d i) (\<lambda>di.
     block (e1 + emb) di))))"

fun source_ladder ::
  "(('t::real_vector), 'z) sifigan_direct_net_scheme \<Rightarrow> 't list \<Rightarrow> 't list \<Rightarrow> nat \<Rightarrow> 't
     \<Rightarrow> py_error + ('t list \<times> 't)" where
  "source_ladder g embs d 0 e = Inr ([], e)"
| "source_ladder g embs d (Suc m) e =
     err_bind (source_ladder g embs d m e) (\<lambda>(embs2, e').
     err_bind (source_stage g embs d m e') (\<lambda>e''.
       Inr (embs2 @ [e''], e'')))"

text \<open>
  The filter network of \<^verbatim>\<open>SiFiGANGenerator\<close> reads \<^verbatim>\<open>embs[-i - 1]\<close>
  (\<open>from_end\<close>), that of \<^verbatim>\<open>SiFiGANDirectGenerator\<close> reads \<^verbatim>\<open>embs2[i]\<close>.
\<close>

definition filter_stage_input ::
  "(('t::real_vector), 'z) sifigan_direct_net_scheme \<Rightarrow> bool \<Rightarrow> 't list \<Rightarrow> nat \<Rightarrow> 't
     \<Rightarrow> py_error + 't" where
  "filter_stage_input g from_end embs i c =
     err_bind (fn_upsample g i c) (\<lambda>c1.
     err_bind (if from_end then py_index_from_end embs i else py_index embs i) (\<lambda>emb.
       Inr (c1 + emb)))"

definition filter_stage ::
  "(('t::real_vector), 'z) sifigan_direct_net_scheme \<Rightarrow> bool \<Rightarrow> 't list \<Rightarrow> nat \<Rightarrow> 't
     \<Rightarrow> py_error + 't" where
  "filter_stage g from_end embs i c =
     err_bind (filter_stage_input g from_end embs i c)
       (blocks_mean (sgn_fn_blocks g) (sgn_num_fn_blocks g) i)"

fun filter_ladder ::
  "(('t::real_vector), 'z) sifigan_direct_net_scheme \<Rightarrow> bool \<Rightarrow> 't list \<Rightarrow> nat \<Rightarrow> 't
     \<Rightarrow> py_error + 't" where
  "filter_ladder g from_end embs 0 c = Inr c"
| "filter_ladder g from_end embs (Suc m) c =
     err_bind (filter_ladder g from_end embs m c) (filter_stage g from_end embs m)"

text \<open>
  \<^verbatim>\<open>SiFiGANGenerator.forward(x, c, d, sid)\<close> returns the pair \<^verbatim>\<open>(c, e_)\<close>. The
  speaker embedding is read without a test, although the constructor creates it only
  when \<^verbatim>\<open>gin_channels != 0\<close>.
\<close>

definition SiFiGANGenerator_forward ::
  "(('t::real_vector), 's) sifigan_net \<Rightarrow> 't \<Rightarrow> 't \<Rightarrow> 't list \<Rightarrow> 's \<Rightarrow> py_error + ('t \<times> 't)" where
  "SiFiGANGenerator_forward g x c d sid =
     (case sgn_emb_g g of
        None \<Rightarrow> Inl AttributeError
      | Some emb_g \<Rightarrow>
     err_bind (emb_g sid) (\<lambda>sid1.
     (case sgn_cond g of
        None \<Rightarrow> Inl AttributeError
      | Some cond \<Rightarrow>
     err_bind (cond sid1) (\<lambda>sid2.
     err_bind (sgn_input_conv g c) (\<lambda>c0.
     err_bind (sgn_sn_emb g x) (\<lambda>x0.
     err_bind (downsample_cascade (sgn_sn_downsamples g) x0 (sgn_num_upsamples g - 1)) (\<lambda>embs.
     err_bind (source_ladder g embs d (sgn_num_upsamples g) (c0 + sid2)) (\<lambda>(embs2, e).
     err_bind (sgn_sn_output_conv g e) (\<lambda>e_out.
     err_bind
       (downsample_cascade
          (if sgn_share_downsamples g then sgn_sn_downsamples g else sgn_fn_downsamples g)
          e (sgn_num_upsamples g - 1)) (\<lambda>embs'.
     err_bind (filter_ladder g True embs' (sgn_num_upsamples g) (c0 + sid2)) (\<lambda>c'.
     err_bind (sgn_fn_output_conv g c') (\<lambda>c_out.
       Inr (c_out, e_out)))))))))))))"

text \<open>\<^verbatim>\<open>SiFiGANDirectGenerator.forward(x, c, d)\<close> returns the pair \<^verbatim>\<open>(c, e)\<close>.\<close>

definition SiFiGANDirectGenerator_forward ::
  "('t::real_vector) sifigan_direct_net \<Rightarrow> 't \<Rightarrow> 't \<Rightarrow> 't list \<Rightarrow> py_error + ('t \<times> 't)" where
  "SiFiGANDirectGenerator_forward g x c d =
     err_bind (sgn_input_conv g c) (\<lambda>c0.
     err_bind (sgn_sn_emb g x) (\<lambda>x0.
     err_bind (downsample_cascade (sgn_sn_downsamples g) x0 (sgn_num_upsamples g - 1)) (\<lambda>embs.
     err_bind (source_ladder g embs d (sgn_num_upsamples g) c0) (\<lambda>(embs2, e).
     err_bind (sgn_sn_output_conv g e) (\<lambda>e_out.
     err_bind (filter_ladder g False embs2 (sgn_num_upsamples g) c0) (\<lambda>c'.
     err_bind (sgn_fn_output_conv g c') (\<lambda>c_out.
       Inr (c_out, e_out))))))))"

subsection \<open>Small networks over the reals\<close>

text \<open>
  Two networks whose tensors are single real numbers and whose layers multiply or shift
  their input: two stages with two residual blocks each. They serve to run the forward
  passes on concrete inputs.
\<close>

definition example_hifigan_net :: "real hifigan_net" where
  "example_hifigan_net =
     \<lparr> hn_num_upsamples = 2, hn_num_blocks = 2,
       hn_use_sine_embs = False, hn_use_qp_resblocks = False,
       hn_input_conv = (\<lambda>c. Inr (c + 1)),
       hn_upsamples = [\<lambda>c. Inr (2 * c), \<lambda>c. Inr (3 * c)],
       hn_qp_blocks = [],
       hn_blocks = [\<lambda>c. Inr c, \<lambda>c. Inr (3 * c), \<lambda>c. Inr (2 * c), \<lambda>c. Inr (4 * c)],
       hn_output_conv = (\<lambda>c. Inr (c - 1)),
       hn_emb = None,
       hn_downsamples = [] \<rparr>"


section \<open>Weight normalisation\<close>

text \<open>
  The three generators have the same methods \<^verbatim>\<open>apply_weight_norm\<close>,
  \<^verbatim>\<open>remove_weight_norm\<close> and \<^verbatim>\<open>reset_parameters\<close>; each hands a function to
  \<^verbatim>\<open>nn.Module.apply\<close>, which calls it on every module of the generator. The
  functions they call, \<^verbatim>\<open>nn.utils.weight_norm\<close> and
  \<^verbatim>\<open>nn.utils.remove_weight_norm\<close>, belong to \<^verbatim>\<open>torch\<close> and are modelled after
  its documentation, over the reals.

  A number is a real or the result of \<open>0 / 0\<close>. A weight tensor is the list of its
  slices along dimension 0, each slice the list of its entries.
\<close>

datatype fnum = Num real | NaN

type_synonym tensor = "fnum list list"

text \<open>
  A convolution holds either its plain \<^verbatim>\<open>weight\<close>, or, under weight normalisation,
  the magnitudes \<^verbatim>\<open>weight_g\<close> (one per slice) and the directions \<^verbatim>\<open>weight_v\<close>.
  Every other module (activations, containers, the embedding, the generator itself) is
  left alone by the three methods.
\<close>

datatype weight_param = Plain tensor | WeightNorm "fnum list" tensor

datatype nn_module = Conv1d weight_param | ConvTranspose1d weight_param | OtherModule

fun fnum_sq_sum :: "fnum list \<Rightarrow> fnum" where
  "fnum_sq_sum [] = Num 0"
| "fnum_sq_sum (Num a # xs) = (case fnum_sq_sum xs of Num s \<Rightarrow> Num (a * a + s) | NaN \<Rightarrow> NaN)"
| "fnum_sq_sum (NaN # xs) = NaN"

text \<open>The Euclidean norm of a slice: \<^verbatim>\<open>norm_except_dim(v, 2, 0)\<close>, slice by slice.\<close>

definition slice_norm :: "fnum list \<Rightarrow> fnum" where
  "slice_norm xs = (case fnum_sq_sum xs of Num s \<Rightarrow> Num (sqrt s) | NaN \<Rightarrow> NaN)"

text \<open>
  An entry of \<^verbatim>\<open>v * (g / norm(v))\<close>, where \<open>n\<close> is the norm of the slice of
  \<open>v\<close>. When that norm is zero the entry \<open>v\<close> is zero, and \<open>0 * (g / 0)\<close> is not
  a number, whatever \<open>g\<close> is.
\<close>

fun scaled_entry :: "fnum \<Rightarrow> fnum \<Rightarrow> fnum \<Rightarrow> fnum" where
  "scaled_entry (Num g) (Num n) (Num v) = (if n = 0 then NaN else Num (v * (g / n)))"
| "scaled_entry g n v = NaN"

text \<open>The weight that the decomposition stands for: \<^verbatim>\<open>torch._weight_norm(v, g, 0)\<close>.\<close>

definition compute_weight :: "fnum list \<Rightarrow> tensor \<Rightarrow> tensor" where
  "compute_weight g v =
     map (\<lambda>(gi, vi). map (scaled_entry gi (slice_norm vi)) vi) (zip g v)"

text \<open>
  \<^verbatim>\<open>nn.utils.weight_norm(m)\<close> replaces the weight by the pair \<open>(g, v)\<close> with
  \<open>g\<close> the norms of the slices and \<open>v\<close> the weight; a second application to the
  same parameter is refused with a \<^verbatim>\<open>RuntimeError\<close>, and a module without a weight
  has no such attribute.
\<close>

fun param_weight_norm :: "weight_param \<Rightarrow> py_error + weight_param" where
  "param_weight_norm (Plain w) = Inr (WeightNorm (map slice_norm w) w)"
| "param_weight_norm (WeightNorm g v) = Inl RuntimeError"

fun torch_weight_norm :: "nn_module \<Rightarrow> py_error + nn_module" where
  "torch_weight_norm (Conv1d p) = err_bind (param_weight_norm p) (\<lambda>p'. Inr (Conv1d p'))"
| "torch_weight_norm (ConvTranspose1d p) =
     err_bind (param_weight_norm p) (\<lambda>p'. Inr (ConvTranspose1d p'))"
| "torch_weight_norm OtherModule = Inl AttributeError"

text \<open>
  \<^verbatim>\<open>nn.utils.remove_weight_norm(m)\<close> stores the computed weight as the plain
  parameter again, and raises \<^verbatim>\<open>ValueError\<close> when the module carries no weight
  normalisation.
\<close>

fun param_remove_weight_norm :: "weight_param \<Rightarrow> py_error + weight_param" where
  "param_remove_weight_norm (WeightNorm g v) = Inr (Plain (compute_weight g v))"
| "param_remove_weight_norm (Plain w) = Inl ValueError"

fun torch_remove_weight_norm :: "nn_module \<Rightarrow> py_error + nn_module" where
  "torch_remove_weight_norm (Conv1d p) =
     err_bind (param_remove_weight_norm p) (\<lambda>p'. Inr (Conv1d p'))"
| "torch_remove_weight_norm (ConvTranspose1d p) =
     err_bind (param_remove_weight_norm p) (\<lambda>p'. Inr (ConvTranspose1d p'))"
| "torch_remove_weight_norm OtherModule = Inl ValueError"

text \<open>\<^verbatim>\<open>self.apply(fn)\<close>: the function is called on each module in turn.\<close>

fun module_apply ::
  "(nn_module \<Rightarrow> py_error + nn_module) \<Rightarrow> nn_module list \<Rightarrow> py_error + nn_module list" where
  "module_apply f [] = Inr []"
| "module_apply f (m # ms) =
     err_bind (f m) (\<lambda>m'.
     err_bind (module_apply f ms) (\<lambda>ms'.
       Inr (m' # ms')))"

text \<open>
  \<^verbatim>\<open>
  def _apply_weight_norm(m):
      if isinstance(m, nn.Conv1d) or isinstance(m, nn.ConvTranspose1d):
          nn.utils.weight_norm(m)
  \<close>
\<close>

fun apply_weight_norm_fn :: "nn_module \<Rightarrow> py_error + nn_module" where
  "apply_weight_norm_fn OtherModule = Inr OtherModule"
| "apply_weight_norm_fn m = torch_weight_norm m"

definition apply_weight_norm :: "nn_module list \<Rightarrow> py_error + nn_module list" where
  "apply_weight_norm ms = module_apply apply_weight_norm_fn ms"

text \<open>
  \<^verbatim>\<open>
  def _remove_weight_norm(m):
      try:
          nn.utils.remove_weight_norm(m)
      except ValueError:  # this module didn't have weight norm
          return
  \<close>
  Only \<^verbatim>\<open>ValueError\<close> is caught.
\<close>

definition remove_weight_norm_fn :: "nn_module \<Rightarrow> py_error + nn_module" where
  "remove_weight_norm_fn m =
     (case torch_remove_weight_norm m of
        Inl e \<Rightarrow> if e = ValueError then Inr m else Inl e
      | Inr m' \<Rightarrow> Inr m')"

definition remove_weight_norm :: "nn_module list \<Rightarrow> py_error + nn_module list" where
  "remove_weight_norm ms = module_apply remove_weight_norm_fn ms"

text \<open>
  \<^verbatim>\<open>
  def _reset_parameters(m):
      if isinstance(m, (nn.Conv1d, nn.ConvTranspose1d)):
          m.weight.data.normal_(0.0, 0.01)
  \<close>
  The drawn tensor is an argument. Under weight normalisation \<^verbatim>\<open>m.weight\<close> is the
  computed tensor, not a parameter, so the parameters \<open>g\<close> and \<open>v\<close> stay.
\<close>

fun param_reset :: "tensor \<Rightarrow> weight_param \<Rightarrow> weight_param" where
  "param_reset r (Plain w) = Plain r"
| "param_reset r (WeightNorm g v) = WeightNorm g v"

fun reset_parameters_fn :: "tensor \<Rightarrow> nn_module \<Rightarrow> nn_module" where
  "reset_parameters_fn r (Conv1d p) = Conv1d (param_reset r p)"
| "reset_parameters_fn r (ConvTranspose1d p) = ConvTranspose1d (param_reset r p)"
| "reset_parameters_fn r OtherModule = OtherModule"

definition reset_parameters :: "(nat \<Rightarrow> tensor) \<Rightarrow> nn_module list \<Rightarrow> nn_module list" where
  "reset_parameters draw ms = map (\<lambda>(i, m). reset_parameters_fn (draw i) m) (enumerate 0 ms)"

text \<open>
  The end of each constructor, on the modules \<open>layers\<close> it has built, with
  \<open>use_wn\<close> for the argument \<^verbatim>\<open>use_weight_norm\<close>:
  \<^verbatim>\<open>
  if use_weight_norm:
      self.apply_weight_norm()
  self.reset_parameters()
  \<close>
\<close>

definition init_weights ::
  "bool \<Rightarrow> (nat \<Rightarrow> tensor) \<Rightarrow> nn_module list \<Rightarrow> py_error + nn_module list" where
  "init_weights use_wn draw layers =
     err_bind (if use_wn then apply_weight_norm layers else Inr layers) (\<lambda>ms.
       Inr (reset_parameters draw ms))"

text \<open>A module as a layer constructor returns it: no weight normalisation yet.\<close>

fun plain_module :: "nn_module \<Rightarrow> bool" where
  "plain_module (Conv1d (WeightNorm g v)) = False"
| "plain_module (ConvTranspose1d (WeightNorm g v)) = False"
| "plain_module m = True"



section \<open>Properties of construction\<close>

subsection \<open>The stage loop\<close>

lemma hifigan_stages_mismatch:
  "i \<in> set idx \<Longrightarrow>
   upsample_kernel_sizes cfg ! i \<noteq> 2 * upsample_scales cfg ! i \<Longrightarrow>
   hifigan_stages cfg idx = Inl AssertionError \<or> hifigan_stages cfg idx = Inl IndexError"
  by (induction idx) (auto split: sum.splits)

lemma sifigan_stages_mismatch:
  "i \<in> set idx \<Longrightarrow>
   upsample_kernel_sizes cfg ! i \<noteq> 2 * upsample_scales cfg ! i \<Longrightarrow>
   sifigan_stages cfg idx = Inl AssertionError \<or> sifigan_stages cfg idx = Inl IndexError"
  by (induction idx) (auto split: sum.splits)

lemma hifigan_init_mismatch:
  assumes "i < length (upsample_kernel_sizes cfg)"
    and "upsample_kernel_sizes cfg ! i \<noteq> 2 * upsample_scales cfg ! i"
  shows "HiFiGANGenerator_init cfg = Inl AssertionError
         \<or> HiFiGANGenerator_init cfg = Inl IndexError"
proof -
  from assms have "i \<in> set [0..<length (upsample_kernel_sizes cfg)]" by simp
  from hifigan_stages_mismatch[OF this assms(2)] show ?thesis
    by (auto simp: HiFiGANGenerator_init_def)
qed

lemma sifigan_init_mismatch:
  assumes "i < length (upsample_kernel_sizes cfg)"
    and "upsample_kernel_sizes cfg ! i \<noteq> 2 * upsample_scales cfg ! i"
  shows "SiFiGANGenerator_init cfg = Inl AssertionError
         \<or> SiFiGANGenerator_init cfg = Inl IndexError"
proof -
  from assms have "i \<in> set [0..<length (upsample_kernel_sizes cfg)]" by simp
  from sifigan_stages_mismatch[OF this assms(2)] show ?thesis
    by (auto simp: SiFiGANGenerator_init_def)
qed

lemma sifigan_direct_init_mismatch:
  assumes "i < length (upsample_kernel_sizes cfg)"
    and "upsample_kernel_sizes cfg ! i \<noteq> 2 * upsample_scales cfg ! i"
  shows "SiFiGANDirectGenerator_init cfg = Inl AssertionError
         \<or> SiFiGANDirectGenerator_init cfg = Inl IndexError"
proof -
  from assms have "i \<in> set [0..<length (upsample_kernel_sizes cfg)]" by simp
  from sifigan_stages_mismatch[OF this assms(2)] show ?thesis
    by (auto simp: SiFiGANDirectGenerator_init_def)
qed



lemma hifigan_stages_ups:
  "hifigan_stages cfg idx = Inr (ups, qps, blks) \<Longrightarrow>
   ups = map (upsample_layer (channels cfg) (upsample_scales cfg) (upsample_kernel_sizes cfg)) idx"
  by (induction idx arbitrary: ups qps blks) (auto split: sum.splits if_splits)

lemma sifigan_stages_ups:
  "sifigan_stages cfg idx = Inr (sn_ups, fn_ups, sn_blks, fn_blks) \<Longrightarrow>
   sn_ups = map (upsample_layer (channels cfg) (upsample_scales cfg) (upsample_kernel_sizes cfg)) idx
   \<and> fn_ups = (if share_upsamples cfg then [] else sn_ups)"
  by (induction idx arbitrary: sn_ups fn_ups sn_blks fn_blks) (auto split: sum.splits if_splits)

lemma hifigan_stages_valid:
  "hifigan_stages cfg idx = Inr r \<Longrightarrow> i \<in> set idx \<Longrightarrow>
   upsample_kernel_sizes cfg ! i = 2 * upsample_scales cfg ! i"
  by (induction idx arbitrary: r) (auto split: sum.splits if_splits)

lemma sifigan_stages_valid:
  "sifigan_stages cfg idx = Inr r \<Longrightarrow> i \<in> set idx \<Longrightarrow>
   upsample_kernel_sizes cfg ! i = 2 * upsample_scales cfg ! i"
  by (induction idx arbitrary: r) (auto split: sum.splits if_splits)




lemma hifigan_init_Inr:
  assumes "HiFiGANGenerator_init cfg = Inr g"
  shows "hg_upsamples g = map (upsample_layer (channels cfg) (upsample_scales cfg) (upsample_kernel_sizes cfg)) [0..<length (upsample_kernel_sizes cfg)]"
    and "hg_num_upsamples g = length (upsample_kernel_sizes cfg)"
    and "length (upsample_scales cfg) = length (upsample_kernel_sizes cfg)"
    and "upsample_kernel_sizes cfg \<noteq> []"
    and "kernel_size cfg mod 2 = 1"
    and "\<forall>i<length (upsample_kernel_sizes cfg). upsample_kernel_sizes cfg ! i = 2 * upsample_scales cfg ! i"
    and "hg_downsamples g = (if use_sine_embs cfg then downsample_layers (channels cfg) (upsample_scales cfg) (upsample_kernel_sizes cfg) else [])"
    and "hg_use_sine_embs g = use_sine_embs cfg"
  using assms hifigan_stages_ups[of cfg "[0..<length (upsample_kernel_sizes cfg)]"]
      hifigan_stages_valid[of cfg "[0..<length (upsample_kernel_sizes cfg)]"]
  by (auto simp: HiFiGANGenerator_init_def split: sum.splits if_splits)

lemma sifigan_init_Inr:
  assumes "SiFiGANGenerator_init cfg = Inr g"
  shows "sg_sn_upsamples g = map (upsample_layer (channels cfg) (upsample_scales cfg) (upsample_kernel_sizes cfg)) [0..<length (upsample_kernel_sizes cfg)]"
    and "sg_fn_upsamples g = (if share_upsamples cfg then [] else sg_sn_upsamples g)"
    and "sg_num_upsamples g = length (upsample_kernel_sizes cfg)"
    and "\<forall>i<length (upsample_kernel_sizes cfg). upsample_kernel_sizes cfg ! i = 2 * upsample_scales cfg ! i"
    and "sg_sn_downsamples g = downsample_layers (channels cfg) (upsample_scales cfg) (upsample_kernel_sizes cfg)"
    and "sg_fn_downsamples g = (if share_downsamples cfg then [] else downsample_layers (channels cfg) (upsample_scales cfg) (upsample_kernel_sizes cfg))"
    and "sg_share_upsamples g = share_upsamples cfg"
  using assms sifigan_stages_ups[of cfg "[0..<length (upsample_kernel_sizes cfg)]"]
      sifigan_stages_valid[of cfg "[0..<length (upsample_kernel_sizes cfg)]"]
  by (auto simp: SiFiGANGenerator_init_def split: sum.splits if_splits)

lemma sifigan_direct_init_Inr:
  assumes "SiFiGANDirectGenerator_init cfg = Inr g"
  shows "sg_sn_upsamples g = map (upsample_layer (channels cfg) (upsample_scales cfg) (upsample_kernel_sizes cfg)) [0..<length (upsample_kernel_sizes cfg)]"
    and "sg_fn_upsamples g = (if share_upsamples cfg then [] else sg_sn_upsamples g)"
    and "sg_num_upsamples g = length (upsample_kernel_sizes cfg)"
    and "\<forall>i<length (upsample_kernel_sizes cfg). upsample_kernel_sizes cfg ! i = 2 * upsample_scales cfg ! i"
    and "sg_sn_downsamples g = downsample_layers (channels cfg) (upsample_scales cfg) (upsample_kernel_sizes cfg)"
    and "sg_share_upsamples g = share_upsamples cfg"
  using assms sifigan_stages_ups[of cfg "[0..<length (upsample_kernel_sizes cfg)]"]
      sifigan_stages_valid[of cfg "[0..<length (upsample_kernel_sizes cfg)]"]
  by (auto simp: SiFiGANDirectGenerator_init_def split: sum.splits if_splits)

lemma downsample_layers_padding:
  assumes "d \<in> set (downsample_layers ch ss ks)"
  shows "c1_padding d = (if c1_kernel d mod 2 = 0 then c1_stride d - 1 else c1_stride d)"
  using assms by (auto simp: downsample_layers_def downsample_layer_def)

lemma downsample_layers_kernel:
  assumes "d \<in> set (downsample_layers ch ss ks)" and "\<forall>i<length ks. ks ! i = 2 * ss ! i"
  shows "c1_kernel d = 2 * c1_stride d"
  using assms by (auto simp: downsample_layers_def downsample_layer_def)

subsection \<open>Mismatched stage lists\<close>

text \<open>
  C7. Each of the three constructors raises when \<^verbatim>\<open>upsample_scales\<close> and
  \<^verbatim>\<open>upsample_kernel_sizes\<close> differ in length (the assertion fails), and raises when
  some kernel size is not twice its scale: the assertion of that stage fails, unless an
  earlier stage already ran out of dilation tuples, which is an \<^verbatim>\<open>IndexError\<close>. In
  both cases no generator is returned, so no forward call can follow.
\<close>

theorem init_rejects_mismatched_stage_lists:
  "(length (upsample_scales hc) \<noteq> length (upsample_kernel_sizes hc)
      \<longrightarrow> HiFiGANGenerator_init hc = Inl AssertionError)
   \<and> (length (upsample_scales sc) \<noteq> length (upsample_kernel_sizes sc)
      \<longrightarrow> SiFiGANGenerator_init sc = Inl AssertionError)
   \<and> (length (upsample_scales dc) \<noteq> length (upsample_kernel_sizes dc)
      \<longrightarrow> SiFiGANDirectGenerator_init dc = Inl AssertionError)
   \<and> (i < length (upsample_kernel_sizes hc)
        \<and> upsample_kernel_sizes hc ! i \<noteq> 2 * upsample_scales hc ! i
      \<longrightarrow> HiFiGANGenerator_init hc = Inl AssertionError
          \<or> HiFiGANGenerator_init hc = Inl IndexError)
   \<and> (j < length (upsample_kernel_sizes sc)
        \<and> upsample_kernel_sizes sc ! j \<noteq> 2 * upsample_scales sc ! j
      \<longrightarrow> SiFiGANGenerator_init sc = Inl AssertionError
          \<or> SiFiGANGenerator_init sc = Inl IndexError)
   \<and> (k < length (upsample_kernel_sizes dc)
        \<and> upsample_kernel_sizes dc ! k \<noteq> 2 * upsample_scales dc ! k
      \<longrightarrow> SiFiGANDirectGenerator_init dc = Inl AssertionError
          \<or> SiFiGANDirectGenerator_init dc = Inl IndexError)"
  using hifigan_init_mismatch[of i hc] sifigan_init_mismatch[of j sc]
    sifigan_direct_init_mismatch[of k dc]
  by (simp add: HiFiGANGenerator_init_def SiFiGANGenerator_init_def
      SiFiGANDirectGenerator_init_def)

text \<open>
  The defaults with the last kernel size changed from 4 to 5: stage 3 is the one whose
  kernel is not twice its scale, and the lists still have the same length, so the three
  constructors fail in the stage loop.
\<close>

theorem init_rejects_mismatched_stage_lists_witness:
  "(3::nat) < length [10, 8, 6, 5::int]
   \<and> [10, 8, 6, 5::int] ! 3 \<noteq> 2 * [5, 4, 3, 2::int] ! 3
   \<and> (HiFiGANGenerator_init
         ((hifigan_defaults 80)\<lparr>upsample_kernel_sizes := [10, 8, 6, 5]\<rparr>)
           = Inl AssertionError
        \<or> HiFiGANGenerator_init
         ((hifigan_defaults 80)\<lparr>upsample_kernel_sizes := [10, 8, 6, 5]\<rparr>)
           = Inl IndexError)
   \<and> (SiFiGANGenerator_init
         ((sifigan_defaults 80)\<lparr>upsample_kernel_sizes := [10, 8, 6, 5]\<rparr>)
           = Inl AssertionError
        \<or> SiFiGANGenerator_init
         ((sifigan_defaults 80)\<lparr>upsample_kernel_sizes := [10, 8, 6, 5]\<rparr>)
           = Inl IndexError)
   \<and> (SiFiGANDirectGenerator_init
         ((sifigan_direct_defaults 80)\<lparr>upsample_kernel_sizes := [10, 8, 6, 5]\<rparr>)
           = Inl AssertionError
        \<or> SiFiGANDirectGenerator_init
         ((sifigan_direct_defaults 80)\<lparr>upsample_kernel_sizes := [10, 8, 6, 5]\<rparr>)
           = Inl IndexError)"
  using init_rejects_mismatched_stage_lists
    [of "(hifigan_defaults 80)\<lparr>upsample_kernel_sizes := [10, 8, 6, 5]\<rparr>"
        "(sifigan_defaults 80)\<lparr>upsample_kernel_sizes := [10, 8, 6, 5]\<rparr>"
        "(sifigan_direct_defaults 80)\<lparr>upsample_kernel_sizes := [10, 8, 6, 5]\<rparr>"
        3 3 3]
  by (simp add: hifigan_defaults_def sifigan_defaults_def sifigan_direct_defaults_def
      sifigan_direct_config.defs sifigan_config.defs)

subsection \<open>Channel counts\<close>




subsection \<open>Padding of the down-sampling convolutions\<close>

text \<open>
  C2, as amended. In every generator that a constructor returns, each down-sampling
  convolution with stride (scale) \<open>s\<close> and kernel size \<open>k\<close> has padding \<open>s - 1\<close>
  when \<open>k\<close> is even and \<open>s\<close> when \<open>k\<close> is odd; and since construction has
  asserted \<open>k = 2 * s\<close>, the kernel is even and the padding is \<open>s - 1\<close>.
\<close>

theorem downsample_padding:
  "(HiFiGANGenerator_init hc = Inr hg \<and> d \<in> set (hg_downsamples hg)
      \<longrightarrow> c1_padding d = (if c1_kernel d mod 2 = 0 then c1_stride d - 1 else c1_stride d)
          \<and> c1_kernel d = 2 * c1_stride d \<and> c1_padding d = c1_stride d - 1)
   \<and> (SiFiGANGenerator_init sc = Inr sg
        \<and> d \<in> set (sg_sn_downsamples sg) \<union> set (sg_fn_downsamples sg)
      \<longrightarrow> c1_padding d = (if c1_kernel d mod 2 = 0 then c1_stride d - 1 else c1_stride d)
          \<and> c1_kernel d = 2 * c1_stride d \<and> c1_padding d = c1_stride d - 1)
   \<and> (SiFiGANDirectGenerator_init dc = Inr dg \<and> d \<in> set (sg_sn_downsamples dg)
      \<longrightarrow> c1_padding d = (if c1_kernel d mod 2 = 0 then c1_stride d - 1 else c1_stride d)
          \<and> c1_kernel d = 2 * c1_stride d \<and> c1_padding d = c1_stride d - 1)"
proof -
  have both: "c1_padding d = (if c1_kernel d mod 2 = 0 then c1_stride d - 1 else c1_stride d)
          \<and> c1_kernel d = 2 * c1_stride d \<and> c1_padding d = c1_stride d - 1"
    if "d \<in> set (downsample_layers ch ss ks)" and "\<forall>i<length ks. ks ! i = 2 * ss ! i"
    for ch ss ks
    using downsample_layers_padding[OF that(1)] downsample_layers_kernel[OF that] by simp
  show ?thesis
    using both[of "channels hc" "upsample_scales hc" "upsample_kernel_sizes hc"]
      both[of "channels sc" "upsample_scales sc" "upsample_kernel_sizes sc"]
      both[of "channels dc" "upsample_scales dc" "upsample_kernel_sizes dc"]
    by (auto simp: hifigan_init_Inr sifigan_init_Inr sifigan_direct_init_Inr split: if_splits)
qed

text \<open>The down-sampling layer of stage 0 in the default configurations: kernel 10, stride 5, padding 4.\<close>

theorem downsample_padding_witness:
  "HiFiGANGenerator_init ((hifigan_defaults 80)\<lparr>use_sine_embs := True\<rparr>)
     = Inr (projr (HiFiGANGenerator_init ((hifigan_defaults 80)\<lparr>use_sine_embs := True\<rparr>)))
   \<and> downsample_layer 512 [5, 4, 3, 2] [10, 8, 6, 4] 0
       \<in> set (hg_downsamples
                (projr (HiFiGANGenerator_init
                          ((hifigan_defaults 80)\<lparr>use_sine_embs := True\<rparr>))))
   \<and> SiFiGANGenerator_init (sifigan_defaults 80)
       = Inr (projr (SiFiGANGenerator_init (sifigan_defaults 80)))
   \<and> downsample_layer 512 [5, 4, 3, 2] [10, 8, 6, 4] 0
       \<in> set (sg_sn_downsamples (projr (SiFiGANGenerator_init (sifigan_defaults 80))))
          \<union> set (sg_fn_downsamples (projr (SiFiGANGenerator_init (sifigan_defaults 80))))
   \<and> SiFiGANDirectGenerator_init (sifigan_direct_defaults 80)
       = Inr (projr (SiFiGANDirectGenerator_init (sifigan_direct_defaults 80)))
   \<and> downsample_layer 512 [5, 4, 3, 2] [10, 8, 6, 4] 0
       \<in> set (sg_sn_downsamples
                (projr (SiFiGANDirectGenerator_init (sifigan_direct_defaults 80))))
   \<and> c1_kernel (downsample_layer 512 [5, 4, 3, 2] [10, 8, 6, 4] 0) = 10
   \<and> c1_stride (downsample_layer 512 [5, 4, 3, 2] [10, 8, 6, 4] 0) = 5
   \<and> c1_padding (downsample_layer 512 [5, 4, 3, 2] [10, 8, 6, 4] 0) = 4"
  using downsample_padding
    [where hc = "(hifigan_defaults 80)\<lparr>use_sine_embs := True\<rparr>"
       and hg = "projr (HiFiGANGenerator_init
                          ((hifigan_defaults 80)\<lparr>use_sine_embs := True\<rparr>))"
       and sc = "sifigan_defaults 80"
       and sg = "projr (SiFiGANGenerator_init (sifigan_defaults 80))"
       and dc = "sifigan_direct_defaults 80"
       and dg = "projr (SiFiGANDirectGenerator_init (sifigan_direct_defaults 80))"
       and d = "downsample_layer 512 [5, 4, 3, 2] [10, 8, 6, 4] 0"]
  by (simp add: HiFiGANGenerator_init_def SiFiGANGenerator_init_def
      SiFiGANDirectGenerator_init_def hifigan_defaults_def sifigan_defaults_def
      sifigan_direct_defaults_def sifigan_direct_config.defs sifigan_config.defs upt_rec
      downsample_layers_def downsample_layer_def)

text \<open>
  C2 as stated (padding \<open>s - 1\<close> for an odd kernel, \<open>s\<close> for an even one) fails on
  that layer: its kernel size 10 is even and its padding is 4, not 5.
\<close>

theorem downsample_padding_claimed_counterexample:
  "c1_padding (downsample_layer 512 [5, 4, 3, 2] [10, 8, 6, 4] 0)
     \<noteq> (if c1_kernel (downsample_layer 512 [5, 4, 3, 2] [10, 8, 6, 4] 0) mod 2 = 1
         then c1_stride (downsample_layer 512 [5, 4, 3, 2] [10, 8, 6, 4] 0) - 1
         else c1_stride (downsample_layer 512 [5, 4, 3, 2] [10, 8, 6, 4] 0))"
  by (simp add: downsample_layer_def)

section \<open>Properties of the time lengths\<close>


subsection \<open>Single layers\<close>










subsection \<open>The cascade and the stage loop\<close>









subsection \<open>Up-sampling\<close>



subsection \<open>Sine embeddings\<close>




section \<open>Properties of the forward pass\<close>

subsection \<open>The mean over the residual blocks\<close>






subsection \<open>The excitation signal without sine embeddings\<close>

lemma hifigan_stage_input_plain:
  assumes "\<not> hn_use_sine_embs g" and "\<not> hn_use_qp_resblocks g"
  shows "hifigan_stage_input g embs d i c = hifigan_stage_input g embs' d' i c"
  using assms by (simp add: hifigan_stage_input_def)

lemma hifigan_ladder_plain:
  assumes "\<not> hn_use_sine_embs g" and "\<not> hn_use_qp_resblocks g"
  shows "hifigan_ladder g embs d m c = hifigan_ladder g embs' d' m c"
proof (induction m)
  case 0
  show ?case by simp
next
  case (Suc m)
  have "hifigan_stage g embs d m = hifigan_stage g embs' d' m"
    unfolding hifigan_stage_def fun_eq_iff
    using hifigan_stage_input_plain[OF assms, of embs d m _ embs' d'] by simp
  with Suc show ?case by simp
qed

text \<open>
  C10. When a \<^verbatim>\<open>HiFiGANGenerator\<close> uses neither sine embeddings nor quasi-periodic
  blocks, its forward pass returns the same result, or raises the same error, for any
  two excitation signals \<open>x\<close>, \<open>x'\<close> and any two dilation-factor arguments
  \<open>d\<close>, \<open>d'\<close> (lists or \<open>None\<close>), given the same features \<open>c\<close>.
\<close>

theorem forward_ignores_excitation:
  assumes "\<not> hn_use_sine_embs g" and "\<not> hn_use_qp_resblocks g"
  shows "HiFiGANGenerator_forward g x c d = HiFiGANGenerator_forward g x' c d'"
  using assms hifigan_ladder_plain[OF assms, of "[]" d _ _ "[]" d']
  by (simp add: HiFiGANGenerator_forward_def)

text \<open>The example network on the features 1: the result 71 for two different excitations.\<close>

theorem forward_ignores_excitation_witness:
  "\<not> hn_use_sine_embs example_hifigan_net \<and> \<not> hn_use_qp_resblocks example_hifigan_net
   \<and> HiFiGANGenerator_forward example_hifigan_net 5 1 None
       = HiFiGANGenerator_forward example_hifigan_net 7 1 (Some [2, 3])
   \<and> HiFiGANGenerator_forward example_hifigan_net 5 1 None = Inr 71"
  using forward_ignores_excitation[of example_hifigan_net 5 1 None 7 "Some [2, 3]"]
  by (simp add: example_hifigan_net_def HiFiGANGenerator_forward_def hifigan_stage_def
      hifigan_stage_input_def blocks_mean_def py_index_def numeral_2_eq_2)

subsection \<open>Shared up-sampling layers\<close>



section \<open>Properties of weight normalisation\<close>

subsection \<open>Removal without weight normalisation\<close>

lemma remove_weight_norm_fn_plain:
  "plain_module m \<Longrightarrow> remove_weight_norm_fn m = Inr m"
  by (cases m rule: plain_module.cases) (simp_all add: remove_weight_norm_fn_def)

lemma module_apply_unchanged:
  "\<forall>m\<in>set ms. f m = Inr m \<Longrightarrow> module_apply f ms = Inr ms"
  by (induction ms) simp_all

lemma reset_parameters_fn_plain:
  "plain_module m \<Longrightarrow> plain_module (reset_parameters_fn r m)"
  by (cases m rule: plain_module.cases) simp_all

lemma reset_parameters_plain:
  assumes "list_all plain_module ms"
  shows "list_all plain_module (reset_parameters draw ms)"
  using assms
  by (auto simp: reset_parameters_def list_all_iff in_set_enumerate_eq
      intro: reset_parameters_fn_plain)

text \<open>
  C8. A generator constructed with \<^verbatim>\<open>use_weight_norm=False\<close> keeps the modules its
  layer constructors returned, with freshly drawn weights. On such a generator
  \<^verbatim>\<open>remove_weight_norm\<close> returns without an error (the \<^verbatim>\<open>ValueError\<close> of every
  module is caught) and leaves every module, hence every weight, as it was.
\<close>

theorem remove_without_weight_norm_is_noop:
  assumes "list_all plain_module layers"
    and "init_weights False draw layers = Inr ms"
  shows "remove_weight_norm ms = Inr ms"
proof -
  from assms(2) have "ms = reset_parameters draw layers"
    by (simp add: init_weights_def)
  with assms(1) have "list_all plain_module ms"
    by (simp add: reset_parameters_plain)
  then have "\<forall>m\<in>set ms. remove_weight_norm_fn m = Inr m"
    by (simp add: list_all_iff remove_weight_norm_fn_plain)
  then show ?thesis
    unfolding remove_weight_norm_def by (rule module_apply_unchanged)
qed

text \<open>Two convolutions and an activation, with the weights drawn at construction.\<close>

theorem remove_without_weight_norm_is_noop_witness:
  "list_all plain_module
     [Conv1d (Plain [ [Num 0, Num 0] ]), OtherModule, ConvTranspose1d (Plain [ [Num 0, Num 0] ])]
   \<and> init_weights False (\<lambda>i. [ [Num 1, Num 2] ])
       [Conv1d (Plain [ [Num 0, Num 0] ]), OtherModule, ConvTranspose1d (Plain [ [Num 0, Num 0] ])]
       = Inr [Conv1d (Plain [ [Num 1, Num 2] ]), OtherModule,
              ConvTranspose1d (Plain [ [Num 1, Num 2] ])]
   \<and> remove_weight_norm
       [Conv1d (Plain [ [Num 1, Num 2] ]), OtherModule, ConvTranspose1d (Plain [ [Num 1, Num 2] ])]
       = Inr [Conv1d (Plain [ [Num 1, Num 2] ]), OtherModule,
              ConvTranspose1d (Plain [ [Num 1, Num 2] ])]"
proof -
  have h1: "list_all plain_module
     [Conv1d (Plain [ [Num 0, Num 0] ]), OtherModule, ConvTranspose1d (Plain [ [Num 0, Num 0] ])]"
    by simp
  have h2: "init_weights False (\<lambda>i. [ [Num 1, Num 2] ])
       [Conv1d (Plain [ [Num 0, Num 0] ]), OtherModule, ConvTranspose1d (Plain [ [Num 0, Num 0] ])]
       = Inr [Conv1d (Plain [ [Num 1, Num 2] ]), OtherModule,
              ConvTranspose1d (Plain [ [Num 1, Num 2] ])]"
    by (simp add: init_weights_def reset_parameters_def enumerate_eq_zip upt_rec)
  from remove_without_weight_norm_is_noop[OF h1 h2] h1 h2 show ?thesis by simp
qed

subsection \<open>Applying and removing\<close>









end
